theory Spec2Isabelle
  imports Main "HOL-Library.Word"
begin

unbundle bit_operations_syntax

section \<open>SLA-NG probed: the wrapped network functions of net.c\<close>

text \<open>
  net.c wraps three groups of system calls: \<^verbatim>\<open>recv_w_ts\<close> (receive a probe with its
  timestamp), \<^verbatim>\<open>send_w_ts\<close> (send a probe and obtain its TX timestamp) and
  \<^verbatim>\<open>bind_or_die\<close> (create the two listening sockets or leave the process).

  The functions are embedded as pure functions. Everything they call outside net.c (the
  operating system and the helpers of tstamp.c) is a field of the record \<open>env\<close>: what the
  call returns, as a function of its arguments. Every function of the model returns,
  beside its C result and the objects it writes through its out-pointers, the trace of
  the calls it made, in the order it made them (syslog lines and \<^verbatim>\<open>exit\<close> included).
\<close>

subsection \<open>Data\<close>

type_synonym byte = "8 word"

text \<open>\<^verbatim>\<open>ts_t\<close> is a \<^verbatim>\<open>struct timespec\<close> (net.c clears it with
  \<^verbatim>\<open>sizeof (struct timespec)\<close> and hands it to \<^verbatim>\<open>clock_gettime\<close>): two integers and
  nothing else. It has no field that says where the value came from or whether it is valid.\<close>

record ts_t =
  tv_sec :: int
  tv_nsec :: int

text \<open>The symbolic constants of the system headers that net.c passes to the socket calls.\<close>

datatype sockconst =
    AF_INET6 | PF_INET6
  | SOCK_DGRAM | SOCK_STREAM
  | IPPROTO_UDP | IPPROTO_TCP | IPPROTO_IPV6 | SOL_SOCKET
  | IPV6_V6ONLY | SO_REUSEADDR

record sockaddr_in6 =
  sin6_family :: sockconst
  sin6_port :: "16 word"
  sin6_addr :: "128 word"

text \<open>Modelled from the spec: \<^verbatim>\<open>addr_t\<close> and \<^verbatim>\<open>pkt_t\<close>, declared in probed.h, which is not
  among the sources. A packet is a peer socket address (IPv4-or-IPv6 capable), a payload
  buffer of the fixed length \<^verbatim>\<open>DATALEN\<close> and a timestamp; net.c names the members
  \<^verbatim>\<open>addr\<close>, \<^verbatim>\<open>data\<close> and \<^verbatim>\<open>ts\<close>. \<^verbatim>\<open>DATALEN\<close> is a macro of probed.h as well: every
  function below takes it as its first argument.\<close>

type_synonym addr_t = sockaddr_in6

record pkt_t =
  addr :: addr_t
  data :: "byte list"
  ts :: ts_t

text \<open>Syslog priorities, and the exit status of stdlib.h.\<close>

datatype priority =
  LOG_EMERG | LOG_ALERT | LOG_CRIT | LOG_ERR | LOG_WARNING | LOG_NOTICE | LOG_INFO | LOG_DEBUG

definition EXIT_FAILURE :: int where
  "EXIT_FAILURE = 1"

text \<open>\<^verbatim>\<open>MSG_ERRQUEUE\<close> of the Linux socket headers, a bit of the receive flags.\<close>

definition MSG_ERRQUEUE :: int where
  "MSG_ERRQUEUE = 0x2000"

subsection \<open>The environment\<close>

text \<open>What the kernel holds for one \<^verbatim>\<open>recvmsg\<close>: the payload of the datagram, the
  address it came from and the ancillary (control) data attached to it.\<close>

record datagram =
  dg_payload :: "byte list"
  dg_name :: addr_t
  dg_control :: "byte list"

text \<open>The \<^verbatim>\<open>struct msghdr\<close> as \<^verbatim>\<open>tstamp_extract\<close> sees it after \<^verbatim>\<open>recvmsg\<close>: the contents
  of the three buffers it points to.\<close>

record msghdr =
  msg_name :: addr_t
  msg_iov :: "byte list"
  msg_control :: "byte list"

text \<open>
  The calls that leave net.c.
  \<^item> \<open>os_clock_gettime\<close>: the time \<^verbatim>\<open>clock_gettime(CLOCK_REALTIME, ts)\<close> stores (the call
    cannot fail for this clock and a valid pointer; net.c discards its result).
  \<^item> \<open>os_sendto sock bytes dest\<close>: the value \<^verbatim>\<open>sendto\<close> returns.
  \<^item> \<open>os_recvmsg sock flags\<close>: \<open>None\<close> when \<^verbatim>\<open>recvmsg\<close> returns a negative value,
    otherwise the datagram the kernel delivers.
  \<^item> \<open>os_tstamp_extract msg t\<close> and \<open>os_tstamp_fetch_tx sock t\<close>: the helpers of tstamp.c,
    which is not part of the sources at hand. Each gets the present contents \<open>t\<close> of the
    timestamp it may write and returns its \<^verbatim>\<open>int\<close> result with the contents it leaves.
  \<^item> \<open>os_socket\<close>, \<open>os_setsockopt\<close>, \<open>os_bind\<close>, \<open>os_listen\<close>: the values these calls return.
\<close>

record env =
  os_clock_gettime :: ts_t
  os_sendto :: "int \<Rightarrow> byte list \<Rightarrow> addr_t \<Rightarrow> int"
  os_recvmsg :: "int \<Rightarrow> int \<Rightarrow> datagram option"
  os_tstamp_extract :: "msghdr \<Rightarrow> ts_t \<Rightarrow> int \<times> ts_t"
  os_tstamp_fetch_tx :: "int \<Rightarrow> ts_t \<Rightarrow> int \<times> ts_t"
  os_socket :: "sockconst \<Rightarrow> sockconst \<Rightarrow> sockconst \<Rightarrow> int"
  os_setsockopt :: "int \<Rightarrow> sockconst \<Rightarrow> sockconst \<Rightarrow> int \<Rightarrow> int"
  os_bind :: "int \<Rightarrow> sockaddr_in6 \<Rightarrow> int"
  os_listen :: "int \<Rightarrow> int \<Rightarrow> int"

text \<open>The trace. A syslog line is its priority and its format string as net.c writes
  it; the formatted arguments (\<^verbatim>\<open>strerror(errno)\<close>, the port) are not expanded.\<close>

datatype event =
    Syslog priority string
  | Call_clock_gettime
  | Call_sendto int "byte list" addr_t
  | Call_recvmsg int int
  | Call_tstamp_extract msghdr
  | Call_tstamp_fetch_tx int
  | Call_socket sockconst sockconst sockconst
  | Call_setsockopt int sockconst sockconst int
  | Call_bind int sockaddr_in6
  | Call_listen int int
  | Exit int

fun is_exit :: "event \<Rightarrow> bool" where
  "is_exit (Exit c) = True"
| "is_exit e = False"

fun is_syslog :: "event \<Rightarrow> bool" where
  "is_syslog (Syslog p m) = True"
| "is_syslog e = False"

fun is_fetch_tx :: "event \<Rightarrow> bool" where
  "is_fetch_tx (Call_tstamp_fetch_tx s) = True"
| "is_fetch_tx e = False"

text \<open>The events of a trace that follow the first occurrence of the event \<open>e\<close>.\<close>

fun after_event :: "event \<Rightarrow> event list \<Rightarrow> event list" where
  "after_event e [] = []"
| "after_event e (x # xs) = (if x = e then xs else after_event e xs)"

subsection \<open>Memory\<close>

text \<open>\<^verbatim>\<open>memset(buf, c, n)\<close> on a byte buffer: the first \<open>n\<close> bytes become \<open>c\<close>, the
  rest stays.\<close>

definition memset :: "byte list \<Rightarrow> byte \<Rightarrow> nat \<Rightarrow> byte list" where
  "memset buf c n = replicate n c @ drop n buf"

text \<open>The kernel filling a buffer of capacity \<open>n\<close> (\<^verbatim>\<open>iov_len\<close>, \<^verbatim>\<open>msg_controllen\<close>) from
  \<open>src\<close>: at most \<open>n\<close> bytes are written at the start of the buffer, what follows them is
  left as it was.\<close>

definition kernel_fill :: "byte list \<Rightarrow> nat \<Rightarrow> byte list \<Rightarrow> byte list" where
  "kernel_fill src n buf = take n src @ drop (min n (length src)) buf"

definition zero_ts :: ts_t where
  "zero_ts = \<lparr>tv_sec = 0, tv_nsec = 0\<rparr>"

text \<open>The control buffer of \<^verbatim>\<open>recv_w_ts\<close> is a \<^verbatim>\<open>struct cmsghdr\<close> followed by 512 bytes;
  a \<^verbatim>\<open>struct cmsghdr\<close> takes 16 bytes on 64-bit Linux.\<close>

definition sizeof_control :: nat where
  "sizeof_control = 16 + 512"

subsection \<open>recv_w_ts (net.c, lines 26 to 67)\<close>

text \<open>A successful \<^verbatim>\<open>recvmsg\<close> writes through the pointers of the \<^verbatim>\<open>msghdr\<close> that
  \<^verbatim>\<open>recv_w_ts\<close> prepared: the payload into \<^verbatim>\<open>pkt->data\<close> (\<^verbatim>\<open>iov_len\<close> is \<open>DATALEN\<close>), the
  sender into \<^verbatim>\<open>pkt->addr\<close>, the ancillary data into the local control buffer.\<close>

definition deliver :: "nat \<Rightarrow> datagram \<Rightarrow> pkt_t \<Rightarrow> pkt_t" where
  "deliver DATALEN dg pkt =
     pkt\<lparr>data := kernel_fill (dg_payload dg) DATALEN (data pkt), addr := dg_name dg\<rparr>"

definition msghdr_after :: "datagram \<Rightarrow> pkt_t \<Rightarrow> msghdr" where
  "msghdr_after dg pkt =
     \<lparr>msg_name = addr pkt, msg_iov = data pkt,
      msg_control = take sizeof_control (dg_control dg)\<rparr>"

text \<open>The packet after the \<^verbatim>\<open>memset\<close> of line 36 and a successful \<^verbatim>\<open>recvmsg\<close> of the
  datagram \<open>dg\<close>.\<close>

definition received :: "nat \<Rightarrow> datagram \<Rightarrow> pkt_t \<Rightarrow> pkt_t" where
  "received DATALEN dg pkt = deliver DATALEN dg (pkt\<lparr>data := memset (data pkt) 0 DATALEN\<rparr>)"

text \<open>The result is the \<^verbatim>\<open>int\<close> returned, the packet as the call leaves it, and the
  trace. \<^verbatim>\<open>recv_w_ts\<close> itself writes \<^verbatim>\<open>pkt->data\<close> (the \<^verbatim>\<open>memset\<close>) and nothing else;
  \<^verbatim>\<open>pkt->ts\<close> is written by \<^verbatim>\<open>tstamp_extract\<close> alone.\<close>

definition recv_w_ts :: "nat \<Rightarrow> env \<Rightarrow> int \<Rightarrow> int \<Rightarrow> pkt_t \<Rightarrow> int \<times> pkt_t \<times> event list" where
  "recv_w_ts DATALEN os sock flags pkt =
    (let pkt1 = pkt\<lparr>data := memset (data pkt) 0 DATALEN\<rparr> in
     case os_recvmsg os sock flags of
       None \<Rightarrow>
         if flags AND MSG_ERRQUEUE = 0
         then (- 1, pkt1, [Call_recvmsg sock flags, Syslog LOG_INFO ''recvmsg: %s''])
         else (- 1, pkt1, [Call_recvmsg sock flags])
     | Some dg \<Rightarrow>
         let pkt2 = deliver DATALEN dg pkt1;
             msg = msghdr_after dg pkt2;
             r = os_tstamp_extract os msg (ts pkt2);
             pkt3 = pkt2\<lparr>ts := snd r\<rparr>;
             tr = [Call_recvmsg sock flags, Call_tstamp_extract msg]
         in if flags AND MSG_ERRQUEUE \<noteq> 0
            then (if fst r < 0 then (- 1, pkt3, tr) else (0, pkt3, tr))
            else (if fst r < 0
                  then (0, pkt3, tr @ [Syslog LOG_ERR ''RX timestamp error''])
                  else (0, pkt3, tr)))"

subsection \<open>send_w_ts (net.c, lines 84 to 105)\<close>

text \<open>\<open>cfg_ts\<close> is the member \<^verbatim>\<open>ts\<close> of the global \<^verbatim>\<open>cfg\<close>; \<open>t0\<close> is what the caller's
  \<^verbatim>\<open>ts\<close> holds on entry. The result is the \<^verbatim>\<open>int\<close> returned, the contents of \<^verbatim>\<open>*ts\<close> on
  return, and the trace. \<^verbatim>\<open>sendto\<close> reads \<open>DATALEN\<close> bytes from \<^verbatim>\<open>data\<close>, which "has to
  be that large" (doc comment): \<open>d\<close> is the caller's buffer, of \<open>DATALEN\<close> bytes or more.\<close>

definition send_w_ts ::
    "nat \<Rightarrow> char \<Rightarrow> env \<Rightarrow> int \<Rightarrow> addr_t \<Rightarrow> byte list \<Rightarrow> ts_t \<Rightarrow> int \<times> ts_t \<times> event list" where
  "send_w_ts DATALEN cfg_ts os sock a d t0 =
    (let t1 = zero_ts;
         t2 = (if cfg_ts = CHR ''u'' then os_clock_gettime os else t1);
         tr1 = (if cfg_ts = CHR ''u'' then [Call_clock_gettime] else []);
         tr2 = tr1 @ [Call_sendto sock (take DATALEN d) a]
     in if os_sendto os sock (take DATALEN d) a < 0
        then (- 1, t2, tr2 @ [Syslog LOG_INFO ''sendto: %s''])
        else if cfg_ts \<noteq> CHR ''u''
        then (let r = os_tstamp_fetch_tx os sock t2;
                  tr3 = tr2 @ [Call_tstamp_fetch_tx sock]
              in if fst r < 0
                 then (- 1, snd r, tr3 @ [Syslog LOG_ERR ''TX timestamp error''])
                 else (0, snd r, tr3))
        else (0, t2, tr2))"

subsection \<open>bind_or_die (net.c, lines 116 to 165)\<close>

text \<open>\<^verbatim>\<open>htons\<close> on a little-endian host: the two bytes of the port change places.\<close>

definition htons :: "16 word \<Rightarrow> 16 word" where
  "htons x = push_bit 8 x OR drop_bit 8 x"

definition in6addr_any :: "128 word" where
  "in6addr_any = 0"

text \<open>The local \<^verbatim>\<open>my\<close>: the three members that \<^verbatim>\<open>bind_or_die\<close> assigns.\<close>

definition my_sockaddr :: "16 word \<Rightarrow> sockaddr_in6" where
  "my_sockaddr port = \<lparr>sin6_family = AF_INET6, sin6_port = htons port, sin6_addr = in6addr_any\<rparr>"

text \<open>The result is \<open>Some (s_udp, s_tcp)\<close>, the two descriptors stored through the
  out-pointers, when the function returns, and \<open>None\<close> when it calls \<^verbatim>\<open>exit\<close>; the trace
  then ends with the \<open>Exit\<close> event. The option value handed to \<^verbatim>\<open>setsockopt\<close> is the
  content of \<^verbatim>\<open>f\<close> at the call.\<close>

definition bind_or_die :: "env \<Rightarrow> 16 word \<Rightarrow> (int \<times> int) option \<times> event list" where
  "bind_or_die os port =
    (let my = my_sockaddr port;
         tr0 = [Syslog LOG_INFO ''Binding port %d\<newline>''];
         s_udp = os_socket os PF_INET6 SOCK_DGRAM IPPROTO_UDP;
         tr1 = tr0 @ [Call_socket PF_INET6 SOCK_DGRAM IPPROTO_UDP]
     in if s_udp < 0
        then (None, tr1 @ [Syslog LOG_ERR ''socket: %s'', Exit EXIT_FAILURE])
        else
    (let tr2 = tr1 @ [Call_setsockopt s_udp IPPROTO_IPV6 IPV6_V6ONLY 0]
               @ (if os_setsockopt os s_udp IPPROTO_IPV6 IPV6_V6ONLY 0 < 0
                  then [Syslog LOG_ERR ''setsockopt: IPV6_V6ONLY: %s''] else []);
         tr3 = tr2 @ [Call_bind s_udp my]
     in if os_bind os s_udp my < 0
        then (None, tr3 @ [Syslog LOG_ERR ''bind: %s'', Exit EXIT_FAILURE])
        else
    (let s_tcp = os_socket os PF_INET6 SOCK_STREAM IPPROTO_TCP;
         tr4 = tr3 @ [Call_socket PF_INET6 SOCK_STREAM IPPROTO_TCP]
     in if s_tcp < 0
        then (None, tr4 @ [Syslog LOG_ERR ''socket: %s'', Exit EXIT_FAILURE])
        else
    (let tr5 = tr4 @ [Call_setsockopt s_tcp IPPROTO_IPV6 IPV6_V6ONLY 0]
               @ (if os_setsockopt os s_tcp IPPROTO_IPV6 IPV6_V6ONLY 0 < 0
                  then [Syslog LOG_ERR ''setsockopt: IPV6_V6ONLY: %s''] else []);
         tr6 = tr5 @ [Call_setsockopt s_tcp SOL_SOCKET SO_REUSEADDR 1]
               @ (if os_setsockopt os s_tcp SOL_SOCKET SO_REUSEADDR 1 < 0
                  then [Syslog LOG_ERR ''setsockopt: SO_REUSEADDR: %s''] else []);
         tr7 = tr6 @ [Call_bind s_tcp my]
     in if os_bind os s_tcp my < 0
        then (None, tr7 @ [Syslog LOG_ERR ''bind: %s'', Exit EXIT_FAILURE])
        else
    (let tr8 = tr7 @ [Call_listen s_tcp 10]
     in if os_listen os s_tcp 10 = - 1
        then (None, tr8 @ [Syslog LOG_ERR ''listen: %s'', Exit EXIT_FAILURE])
        else (Some (s_udp, s_tcp), tr8))))))"

subsection \<open>Concrete environments\<close>

text \<open>The environments and packets at which the results below are evaluated. \<open>DATALEN\<close>
  is 4 in all of them. In \<open>env_ok\<close> every call succeeds: the clock reads
  1291161600.000000005, \<^verbatim>\<open>sendto\<close> returns the number of bytes, \<^verbatim>\<open>recvmsg\<close> delivers the
  four bytes 1, 2, 3, 4 from \<open>peer\<close>, \<^verbatim>\<open>tstamp_extract\<close> stores \<open>ts_rx\<close> and
  \<^verbatim>\<open>tstamp_fetch_tx\<close> stores \<open>ts_tx\<close>, the sockets are the descriptors 3 and 4.\<close>

definition peer :: addr_t where
  "peer = \<lparr>sin6_family = AF_INET6, sin6_port = 60000, sin6_addr = 1\<rparr>"

definition ts_now :: ts_t where
  "ts_now = \<lparr>tv_sec = 1291161600, tv_nsec = 5\<rparr>"

definition ts_rx :: ts_t where
  "ts_rx = \<lparr>tv_sec = 1291161601, tv_nsec = 7\<rparr>"

definition ts_tx :: ts_t where
  "ts_tx = \<lparr>tv_sec = 1291161600, tv_nsec = 9\<rparr>"

definition dg_full :: datagram where
  "dg_full = \<lparr>dg_payload = [1, 2, 3, 4], dg_name = peer, dg_control = [1]\<rparr>"

definition dg_short :: datagram where
  "dg_short = \<lparr>dg_payload = [1, 2], dg_name = peer, dg_control = []\<rparr>"

definition env_ok :: env where
  "env_ok =
     \<lparr>os_clock_gettime = ts_now,
      os_sendto = (\<lambda>s b a. int (length b)),
      os_recvmsg = (\<lambda>s f. Some dg_full),
      os_tstamp_extract = (\<lambda>m t. (0, ts_rx)),
      os_tstamp_fetch_tx = (\<lambda>s t. (0, ts_tx)),
      os_socket = (\<lambda>d t p. if t = SOCK_DGRAM then 3 else 4),
      os_setsockopt = (\<lambda>s l n v. 0),
      os_bind = (\<lambda>s a. 0),
      os_listen = (\<lambda>s n. 0)\<rparr>"

text \<open>\<^verbatim>\<open>sendto\<close> fails.\<close>

definition env_send_fails :: env where
  "env_send_fails = env_ok\<lparr>os_sendto := (\<lambda>s b a. - 1)\<rparr>"

text \<open>\<^verbatim>\<open>recvmsg\<close> fails.\<close>

definition env_recv_fails :: env where
  "env_recv_fails = env_ok\<lparr>os_recvmsg := (\<lambda>s f. None)\<rparr>"

text \<open>\<^verbatim>\<open>recvmsg\<close> delivers a datagram of two bytes.\<close>

definition env_recv_short :: env where
  "env_recv_short = env_ok\<lparr>os_recvmsg := (\<lambda>s f. Some dg_short)\<rparr>"

text \<open>\<^verbatim>\<open>tstamp_fetch_tx\<close> finds no kernel TX timestamp: it returns -1 and leaves
  \<^verbatim>\<open>*ts\<close> as it found it.\<close>

definition env_no_tx_ts :: env where
  "env_no_tx_ts = env_ok\<lparr>os_tstamp_fetch_tx := (\<lambda>s t. (- 1, t))\<rparr>"

text \<open>\<^verbatim>\<open>tstamp_extract\<close> finds no timestamp in the ancillary data: it returns -1 and
  leaves \<^verbatim>\<open>*ts\<close> as it found it.\<close>

definition env_no_rx_ts :: env where
  "env_no_rx_ts = env_ok\<lparr>os_tstamp_extract := (\<lambda>m t. (- 1, t))\<rparr>"

text \<open>\<^verbatim>\<open>recvmsg\<close> delivers two bytes and \<^verbatim>\<open>tstamp_extract\<close> fails as in
  \<open>env_no_rx_ts\<close>.\<close>

definition env_short_no_rx_ts :: env where
  "env_short_no_rx_ts = env_no_rx_ts\<lparr>os_recvmsg := (\<lambda>s f. Some dg_short)\<rparr>"

text \<open>A \<^verbatim>\<open>tstamp_extract\<close> that returns \<open>rc\<close> and leaves in \<^verbatim>\<open>*ts\<close> what \<open>w\<close> makes of the
  message and of the former contents: every behaviour of the helper is of this form.
  \<open>env_extract rc w\<close> is \<open>env_ok\<close> with this helper.\<close>

definition extract_returning ::
    "int \<Rightarrow> (msghdr \<Rightarrow> ts_t \<Rightarrow> ts_t) \<Rightarrow> msghdr \<Rightarrow> ts_t \<Rightarrow> int \<times> ts_t" where
  "extract_returning rc w m t = (rc, w m t)"

definition env_extract :: "int \<Rightarrow> (msghdr \<Rightarrow> ts_t \<Rightarrow> ts_t) \<Rightarrow> env" where
  "env_extract rc w = env_ok\<lparr>os_tstamp_extract := extract_returning rc w\<rparr>"

text \<open>The clock reads \<open>T\<close>, and \<^verbatim>\<open>tstamp_fetch_tx\<close> succeeds and stores the same \<open>T\<close>.\<close>

definition env_same_ts :: "ts_t \<Rightarrow> env" where
  "env_same_ts T = env_ok\<lparr>os_clock_gettime := T, os_tstamp_fetch_tx := (\<lambda>s t. (0, T))\<rparr>"

text \<open>\<^verbatim>\<open>setsockopt\<close> refuses \<^verbatim>\<open>IPV6_V6ONLY\<close> on every socket.\<close>

definition env_v6only_fails :: env where
  "env_v6only_fails = env_ok\<lparr>os_setsockopt := (\<lambda>s l n v. if n = IPV6_V6ONLY then - 1 else 0)\<rparr>"

text \<open>\<^verbatim>\<open>listen\<close> fails.\<close>

definition env_listen_fails :: env where
  "env_listen_fails = env_ok\<lparr>os_listen := (\<lambda>s n. - 1)\<rparr>"

text \<open>A fresh packet (all members zero), and a packet buffer that still holds the
  timestamp \<open>ts_rx\<close> of an earlier receive.\<close>

definition pkt_fresh :: pkt_t where
  "pkt_fresh = \<lparr>addr = \<lparr>sin6_family = AF_INET6, sin6_port = 0, sin6_addr = 0\<rparr>,
                data = [0, 0, 0, 0], ts = zero_ts\<rparr>"

definition pkt_used :: pkt_t where
  "pkt_used = \<lparr>addr = peer, data = [9, 9, 9, 9], ts = ts_rx\<rparr>"

section \<open>Properties\<close>

subsection \<open>The buffers\<close>

lemma kernel_fill_memset_tail:
  "length p \<le> i \<Longrightarrow> i < n \<Longrightarrow> kernel_fill p n (memset buf 0 n) ! i = 0"
proof -
  assume a: "length p \<le> i" "i < n"
  then have "i - length p < n - length p" by arith
  with a show ?thesis
    by (simp add: kernel_fill_def memset_def nth_append min_def)
qed

lemma kernel_fill_memset_head:
  "take (min n (length p)) (kernel_fill p n (memset buf c n)) = take n p"
  by (simp add: kernel_fill_def memset_def min_def)

lemma kernel_fill_exact:
  "length p = n \<Longrightarrow> length buf = n \<Longrightarrow> kernel_fill p n (memset buf c n) = p"
  by (simp add: kernel_fill_def memset_def)

subsection \<open>The three functions, branch by branch\<close>

lemma recv_w_ts_fail:
  "os_recvmsg os sock flags = None \<Longrightarrow>
   recv_w_ts n os sock flags pkt =
     (- 1, pkt\<lparr>data := memset (data pkt) 0 n\<rparr>,
      Call_recvmsg sock flags #
        (if flags AND MSG_ERRQUEUE = 0 then [Syslog LOG_INFO ''recvmsg: %s''] else []))"
  by (simp add: recv_w_ts_def)

lemma recv_w_ts_ok:
  "os_recvmsg os sock flags = Some dg \<Longrightarrow>
   r = os_tstamp_extract os (msghdr_after dg (received n dg pkt)) (ts pkt) \<Longrightarrow>
   recv_w_ts n os sock flags pkt =
     (if flags AND MSG_ERRQUEUE \<noteq> 0 \<and> fst r < 0 then - 1 else 0,
      (received n dg pkt)\<lparr>ts := snd r\<rparr>,
      [Call_recvmsg sock flags, Call_tstamp_extract (msghdr_after dg (received n dg pkt))] @
        (if flags AND MSG_ERRQUEUE = 0 \<and> fst r < 0
         then [Syslog LOG_ERR ''RX timestamp error''] else []))"
  by (simp add: recv_w_ts_def received_def deliver_def Let_def)

lemma received_simps:
  "addr (received n dg pkt) = dg_name dg"
  "data (received n dg pkt) = kernel_fill (dg_payload dg) n (memset (data pkt) 0 n)"
  "ts (received n dg pkt) = ts pkt"
  by (simp_all add: received_def deliver_def)

lemma send_w_ts_eq:
  "send_w_ts n c os sock a d t0 =
    (let t2 = (if c = CHR ''u'' then os_clock_gettime os else zero_ts);
         r = os_tstamp_fetch_tx os sock t2;
         failed = os_sendto os sock (take n d) a < 0
     in (if failed \<or> (c \<noteq> CHR ''u'' \<and> fst r < 0) then - 1 else 0,
         if failed \<or> c = CHR ''u'' then t2 else snd r,
         (if c = CHR ''u'' then [Call_clock_gettime] else []) @
         [Call_sendto sock (take n d) a] @
         (if failed then [Syslog LOG_INFO ''sendto: %s'']
          else if c = CHR ''u'' then []
          else Call_tstamp_fetch_tx sock #
               (if fst r < 0 then [Syslog LOG_ERR ''TX timestamp error''] else []))))"
  by (simp add: send_w_ts_def Let_def)

lemma bind_or_die_result:
  "fst (bind_or_die os port) =
    (let s_udp = os_socket os PF_INET6 SOCK_DGRAM IPPROTO_UDP;
         s_tcp = os_socket os PF_INET6 SOCK_STREAM IPPROTO_TCP
     in if s_udp < 0 \<or> os_bind os s_udp (my_sockaddr port) < 0 \<or> s_tcp < 0 \<or>
           os_bind os s_tcp (my_sockaddr port) < 0 \<or> os_listen os s_tcp 10 = - 1
        then None else Some (s_udp, s_tcp))"
  by (simp add: bind_or_die_def Let_def)

lemma bind_or_die_exit:
  "list_ex is_exit (snd (bind_or_die os port)) = (fst (bind_or_die os port) = None)"
  by (simp add: bind_or_die_def Let_def)

lemma bind_or_die_last:
  "fst (bind_or_die os port) = None \<Longrightarrow> last (snd (bind_or_die os port)) = Exit EXIT_FAILURE"
  by (simp add: bind_or_die_def Let_def split: if_splits)

lemma send_w_ts_no_exit: "\<not> list_ex is_exit (snd (snd (send_w_ts n c os sock a d t0)))"
  by (simp add: send_w_ts_eq Let_def)

lemma recv_w_ts_no_exit: "\<not> list_ex is_exit (snd (snd (recv_w_ts n os sock flags pkt)))"
  by (cases "os_recvmsg os sock flags") (simp_all add: recv_w_ts_def Let_def)

section \<open>The claims\<close>

subsection \<open>send_w_ts\<close>

text \<open>C1 (as amended). In kernel timestamp mode (\<^verbatim>\<open>cfg.ts != 'u'\<close>), after a successful
  \<^verbatim>\<open>sendto\<close>, \<^verbatim>\<open>send_w_ts\<close> itself calls \<^verbatim>\<open>tstamp_fetch_tx\<close> on the zeroed timestamp.
  When that call returns a value of 0 or more, \<^verbatim>\<open>send_w_ts\<close> returns 0 with the timestamp
  \<^verbatim>\<open>tstamp_fetch_tx\<close> stored; when it returns a negative value, \<^verbatim>\<open>send_w_ts\<close> logs
  "TX timestamp error" and returns -1. There is no "timestamp pending" result.\<close>

theorem send_kernel_mode_fetches_tx_timestamp:
  assumes "cfg_ts \<noteq> CHR ''u''"
    and "0 \<le> os_sendto os sock (take n d) a"
  shows "send_w_ts n cfg_ts os sock a d t0 =
    (if fst (os_tstamp_fetch_tx os sock zero_ts) < 0 then - 1 else 0,
     snd (os_tstamp_fetch_tx os sock zero_ts),
     [Call_sendto sock (take n d) a, Call_tstamp_fetch_tx sock] @
     (if fst (os_tstamp_fetch_tx os sock zero_ts) < 0
      then [Syslog LOG_ERR ''TX timestamp error''] else []))"
  using assms by (simp add: send_w_ts_eq Let_def)

text \<open>The theorem at \<open>env_ok\<close>: the send succeeds and the kernel TX timestamp is there.\<close>

theorem send_kernel_mode_fetches_tx_timestamp_witness:
  "CHR ''k'' \<noteq> CHR ''u'' \<and> 0 \<le> os_sendto env_ok 3 (take 4 [1, 2, 3, 4]) peer \<and>
   send_w_ts 4 (CHR ''k'') env_ok 3 peer [1, 2, 3, 4] ts_rx =
     (0, ts_tx, [Call_sendto 3 [1, 2, 3, 4] peer, Call_tstamp_fetch_tx 3])"
  using send_kernel_mode_fetches_tx_timestamp [of "CHR ''k''" env_ok 3 4 "[1, 2, 3, 4]" peer ts_rx]
  by (simp add: env_ok_def)

text \<open>C1 as stated fails: in kernel mode, with a successful \<^verbatim>\<open>sendto\<close> and no kernel TX
  timestamp available, \<^verbatim>\<open>send_w_ts\<close> fails the send: it returns -1.\<close>

theorem send_kernel_mode_fails_without_tx_timestamp:
  "0 \<le> os_sendto env_no_tx_ts 3 (take 4 [1, 2, 3, 4]) peer \<and>
   fst (os_tstamp_fetch_tx env_no_tx_ts 3 zero_ts) < 0 \<and>
   send_w_ts 4 (CHR ''k'') env_no_tx_ts 3 peer [1, 2, 3, 4] zero_ts =
     (- 1, zero_ts,
      [Call_sendto 3 [1, 2, 3, 4] peer, Call_tstamp_fetch_tx 3,
       Syslog LOG_ERR ''TX timestamp error''])"
  by (simp add: send_w_ts_def env_no_tx_ts_def env_ok_def Let_def)

text \<open>C5 (as amended). In userland timestamp mode (\<^verbatim>\<open>cfg.ts == 'u'\<close>) \<^verbatim>\<open>send_w_ts\<close> reads
  the software real-time clock once, as its first call, and \<^verbatim>\<open>sendto\<close> is its second
  call; nothing follows but the syslog line of a failed \<^verbatim>\<open>sendto\<close>. The timestamp handed
  back is that one reading taken before the send, whatever \<^verbatim>\<open>sendto\<close> returns and
  whatever the caller's timestamp held; no kernel TX timestamp is asked for. The timestamp
  is a bare \<^verbatim>\<open>struct timespec\<close>: it carries no source classification.\<close>

theorem send_userland_timestamp_is_pre_send_clock:
  assumes "cfg_ts = CHR ''u''"
  shows "send_w_ts n cfg_ts os sock a d t0 =
    (if os_sendto os sock (take n d) a < 0 then - 1 else 0,
     os_clock_gettime os,
     [Call_clock_gettime, Call_sendto sock (take n d) a] @
     (if os_sendto os sock (take n d) a < 0 then [Syslog LOG_INFO ''sendto: %s''] else []))"
  using assms by (simp add: send_w_ts_eq Let_def)

text \<open>The theorem at \<open>env_ok\<close> and at \<open>env_send_fails\<close>.\<close>

theorem send_userland_timestamp_is_pre_send_clock_witness:
  "send_w_ts 4 (CHR ''u'') env_ok 3 peer [1, 2, 3, 4] zero_ts =
     (0, ts_now, [Call_clock_gettime, Call_sendto 3 [1, 2, 3, 4] peer]) \<and>
   send_w_ts 4 (CHR ''u'') env_send_fails 3 peer [1, 2, 3, 4] zero_ts =
     (- 1, ts_now,
      [Call_clock_gettime, Call_sendto 3 [1, 2, 3, 4] peer, Syslog LOG_INFO ''sendto: %s''])"
  using send_userland_timestamp_is_pre_send_clock [where cfg_ts = "CHR ''u''" and n = 4 and os = env_ok and sock = 3 and a = peer
              and d = "[1, 2, 3, 4]" and ?t0.0 = zero_ts]
        send_userland_timestamp_is_pre_send_clock [where cfg_ts = "CHR ''u''" and n = 4 and os = env_send_fails and sock = 3 and a = peer
              and d = "[1, 2, 3, 4]" and ?t0.0 = zero_ts]
  by (simp add: env_ok_def env_send_fails_def)

text \<open>C5 as stated fails in its last clause: what \<^verbatim>\<open>send_w_ts\<close> returns has no source
  classification. For every time \<open>T\<close>, the send in userland mode with the clock reading
  \<open>T\<close> and the send in kernel mode with the kernel TX timestamp \<open>T\<close> hand back the same
  return value and the same timestamp: nothing in it says "software".\<close>

theorem send_timestamp_carries_no_source:
  "\<forall>T. fst (send_w_ts 4 (CHR ''u'') (env_same_ts T) 3 peer [1, 2, 3, 4] zero_ts) = 0 \<and>
        fst (snd (send_w_ts 4 (CHR ''u'') (env_same_ts T) 3 peer [1, 2, 3, 4] zero_ts)) = T \<and>
        fst (send_w_ts 4 (CHR ''k'') (env_same_ts T) 3 peer [1, 2, 3, 4] zero_ts) = 0 \<and>
        fst (snd (send_w_ts 4 (CHR ''k'') (env_same_ts T) 3 peer [1, 2, 3, 4] zero_ts)) = T"
  by (simp add: send_w_ts_def env_same_ts_def env_ok_def Let_def)

text \<open>C9. In userland timestamp mode, when \<^verbatim>\<open>sendto\<close> fails, \<^verbatim>\<open>send_w_ts\<close> returns -1 and
  the caller's timestamp holds the clock reading taken before the send, whatever it held
  on entry (\<open>t0\<close>): it is neither left as it was nor left zero.\<close>

theorem send_userland_failure_keeps_clock_reading:
  assumes "cfg_ts = CHR ''u''"
    and "os_sendto os sock (take n d) a < 0"
  shows "fst (send_w_ts n cfg_ts os sock a d t0) = - 1 \<and>
         fst (snd (send_w_ts n cfg_ts os sock a d t0)) = os_clock_gettime os"
  using assms by (simp add: send_w_ts_eq Let_def)

text \<open>The theorem at \<open>env_send_fails\<close>, with a zero timestamp on entry.\<close>

theorem send_userland_failure_keeps_clock_reading_witness:
  "os_sendto env_send_fails 3 (take 4 [1, 2, 3, 4]) peer < 0 \<and>
   fst (send_w_ts 4 (CHR ''u'') env_send_fails 3 peer [1, 2, 3, 4] zero_ts) = - 1 \<and>
   fst (snd (send_w_ts 4 (CHR ''u'') env_send_fails 3 peer [1, 2, 3, 4] zero_ts)) = ts_now \<and>
   ts_now \<noteq> zero_ts"
  using send_userland_failure_keeps_clock_reading
          [of "CHR ''u''" env_send_fails 3 4 "[1, 2, 3, 4]" peer zero_ts]
  by (simp add: env_send_fails_def env_ok_def ts_now_def zero_ts_def)

subsection \<open>recv_w_ts\<close>

text \<open>C2 (as amended). On an ordinary data receive (\<^verbatim>\<open>MSG_ERRQUEUE\<close> not set) where
  \<^verbatim>\<open>recvmsg\<close> succeeds and \<^verbatim>\<open>tstamp_extract\<close> fails, \<^verbatim>\<open>recv_w_ts\<close> returns 0 with the
  received payload and the peer address in the packet, and logs "RX timestamp error".
  The timestamp of the packet is what \<^verbatim>\<open>tstamp_extract\<close> left there: \<^verbatim>\<open>recv_w_ts\<close> puts no
  mark on it.\<close>

theorem recv_ordinary_extraction_failure:
  assumes "flags AND MSG_ERRQUEUE = 0"
    and "os_recvmsg os sock flags = Some dg"
    and "fst (os_tstamp_extract os (msghdr_after dg (received n dg pkt)) (ts pkt)) < 0"
  shows "recv_w_ts n os sock flags pkt =
     (0,
      (received n dg pkt)
        \<lparr>ts := snd (os_tstamp_extract os (msghdr_after dg (received n dg pkt)) (ts pkt))\<rparr>,
      [Call_recvmsg sock flags, Call_tstamp_extract (msghdr_after dg (received n dg pkt)),
       Syslog LOG_ERR ''RX timestamp error'']) \<and>
     addr (received n dg pkt) = dg_name dg \<and>
     take (min n (length (dg_payload dg))) (data (received n dg pkt)) = take n (dg_payload dg)"
  using assms
  by (simp add: recv_w_ts_ok [OF assms(2) refl] received_simps kernel_fill_memset_head)

text \<open>The theorem at \<open>env_no_rx_ts\<close> and a fresh packet.\<close>

theorem recv_ordinary_extraction_failure_witness:
  "(0::int) AND MSG_ERRQUEUE = 0 \<and> os_recvmsg env_no_rx_ts 3 0 = Some dg_full \<and>
   fst (os_tstamp_extract env_no_rx_ts (msghdr_after dg_full (received 4 dg_full pkt_fresh))
          (ts pkt_fresh)) < 0 \<and>
   recv_w_ts 4 env_no_rx_ts 3 0 pkt_fresh =
     (0, \<lparr>addr = peer, data = [1, 2, 3, 4], ts = zero_ts\<rparr>,
      [Call_recvmsg 3 0,
       Call_tstamp_extract \<lparr>msg_name = peer, msg_iov = [1, 2, 3, 4], msg_control = [1]\<rparr>,
       Syslog LOG_ERR ''RX timestamp error''])"
  using recv_ordinary_extraction_failure [of 0 env_no_rx_ts 3 dg_full 4 pkt_fresh]
  by (simp add: env_no_rx_ts_def env_ok_def MSG_ERRQUEUE_def dg_full_def pkt_fresh_def
      received_def deliver_def kernel_fill_def memset_def msghdr_after_def sizeof_control_def)

text \<open>C2 as stated fails in its timestamp part, whatever \<^verbatim>\<open>tstamp_extract\<close> does to
  \<^verbatim>\<open>*ts\<close>. Take any negative result \<open>- 1 - k\<close> and any way \<open>w\<close> of writing the
  timestamp. The ordinary receive whose extraction fails with that result and the one
  whose extraction succeeds (result 0) with the same \<open>w\<close> return the same value 0 and the
  same packet, timestamp included; they differ in the syslog line alone. Nothing in what
  the caller gets marks the first timestamp as unavailable.\<close>

theorem recv_failed_extraction_looks_like_success:
  "\<forall>w k.
     recv_w_ts 4 (env_extract (- 1 - int k) w) 3 0 pkt_used =
       (0,
        \<lparr>addr = peer, data = [1, 2, 3, 4],
         ts = w \<lparr>msg_name = peer, msg_iov = [1, 2, 3, 4], msg_control = [1]\<rparr> ts_rx\<rparr>,
        [Call_recvmsg 3 0,
         Call_tstamp_extract \<lparr>msg_name = peer, msg_iov = [1, 2, 3, 4], msg_control = [1]\<rparr>,
         Syslog LOG_ERR ''RX timestamp error'']) \<and>
     recv_w_ts 4 (env_extract 0 w) 3 0 pkt_used =
       (0,
        \<lparr>addr = peer, data = [1, 2, 3, 4],
         ts = w \<lparr>msg_name = peer, msg_iov = [1, 2, 3, 4], msg_control = [1]\<rparr> ts_rx\<rparr>,
        [Call_recvmsg 3 0,
         Call_tstamp_extract \<lparr>msg_name = peer, msg_iov = [1, 2, 3, 4], msg_control = [1]\<rparr>])"
  by (simp add: recv_w_ts_def env_extract_def extract_returning_def env_ok_def MSG_ERRQUEUE_def
      dg_full_def pkt_used_def deliver_def kernel_fill_def memset_def msghdr_after_def
      sizeof_control_def Let_def)

text \<open>C3 (as amended). When the timestamp cannot be obtained, the timestamp output holds
  what the helper of tstamp.c left in it, with no mark of its own. The failure is
  reported by the return value -1 when \<^verbatim>\<open>tstamp_fetch_tx\<close> fails in \<^verbatim>\<open>send_w_ts\<close> (kernel
  mode, after a successful \<^verbatim>\<open>sendto\<close>) and when \<^verbatim>\<open>tstamp_extract\<close> fails on an error-queue
  receive, where nothing is logged by \<^verbatim>\<open>recv_w_ts\<close>; on an ordinary receive the return
  value is 0 and the failure is a syslog line only.\<close>

theorem timestamp_failure_is_reported_not_marked:
  "(cfg_ts \<noteq> CHR ''u'' \<and> 0 \<le> os_sendto os sock (take n d) a \<and>
      fst (os_tstamp_fetch_tx os sock zero_ts) < 0 \<longrightarrow>
      fst (send_w_ts n cfg_ts os sock a d t0) = - 1 \<and>
      fst (snd (send_w_ts n cfg_ts os sock a d t0)) = snd (os_tstamp_fetch_tx os sock zero_ts)) \<and>
   (os_recvmsg os sock flags = Some dg \<and>
      fst (os_tstamp_extract os (msghdr_after dg (received n dg pkt)) (ts pkt)) < 0 \<longrightarrow>
      fst (recv_w_ts n os sock flags pkt) = (if flags AND MSG_ERRQUEUE \<noteq> 0 then - 1 else 0) \<and>
      ts (fst (snd (recv_w_ts n os sock flags pkt))) =
        snd (os_tstamp_extract os (msghdr_after dg (received n dg pkt)) (ts pkt)) \<and>
      list_ex is_syslog (snd (snd (recv_w_ts n os sock flags pkt))) =
        (flags AND MSG_ERRQUEUE = 0))"
proof (intro conjI impI)
  assume s: "cfg_ts \<noteq> CHR ''u'' \<and> 0 \<le> os_sendto os sock (take n d) a \<and>
      fst (os_tstamp_fetch_tx os sock zero_ts) < 0"
  then show "fst (send_w_ts n cfg_ts os sock a d t0) = - 1"
    by (simp add: send_w_ts_eq Let_def)
  from s show "fst (snd (send_w_ts n cfg_ts os sock a d t0)) =
      snd (os_tstamp_fetch_tx os sock zero_ts)"
    by (simp add: send_w_ts_eq Let_def)
next
  assume r: "os_recvmsg os sock flags = Some dg \<and>
      fst (os_tstamp_extract os (msghdr_after dg (received n dg pkt)) (ts pkt)) < 0"
  then have ok: "os_recvmsg os sock flags = Some dg" by simp
  from r show "fst (recv_w_ts n os sock flags pkt) =
      (if flags AND MSG_ERRQUEUE \<noteq> 0 then - 1 else 0)"
    by (simp add: recv_w_ts_ok [OF ok refl])
  show "ts (fst (snd (recv_w_ts n os sock flags pkt))) =
      snd (os_tstamp_extract os (msghdr_after dg (received n dg pkt)) (ts pkt))"
    by (simp add: recv_w_ts_ok [OF ok refl])
  from r show "list_ex is_syslog (snd (snd (recv_w_ts n os sock flags pkt))) =
      (flags AND MSG_ERRQUEUE = 0)"
    by (simp add: recv_w_ts_ok [OF ok refl])
qed

text \<open>The theorem at \<open>env_no_tx_ts\<close> (send) and \<open>env_no_rx_ts\<close> (error-queue and ordinary
  receive).\<close>

theorem timestamp_failure_is_reported_not_marked_witness:
  "0 \<le> os_sendto env_no_tx_ts 3 (take 4 [1, 2, 3, 4]) peer \<and>
   fst (os_tstamp_fetch_tx env_no_tx_ts 3 zero_ts) < 0 \<and>
   fst (send_w_ts 4 (CHR ''k'') env_no_tx_ts 3 peer [1, 2, 3, 4] ts_rx) = - 1 \<and>
   fst (snd (send_w_ts 4 (CHR ''k'') env_no_tx_ts 3 peer [1, 2, 3, 4] ts_rx)) = zero_ts \<and>
   os_recvmsg env_no_rx_ts 3 MSG_ERRQUEUE = Some dg_full \<and>
   fst (os_tstamp_extract env_no_rx_ts
          (msghdr_after dg_full (received 4 dg_full pkt_used)) (ts pkt_used)) < 0 \<and>
   fst (recv_w_ts 4 env_no_rx_ts 3 MSG_ERRQUEUE pkt_used) = - 1 \<and>
   ts (fst (snd (recv_w_ts 4 env_no_rx_ts 3 MSG_ERRQUEUE pkt_used))) = ts_rx \<and>
   \<not> list_ex is_syslog (snd (snd (recv_w_ts 4 env_no_rx_ts 3 MSG_ERRQUEUE pkt_used))) \<and>
   fst (recv_w_ts 4 env_no_rx_ts 3 0 pkt_used) = 0 \<and>
   ts (fst (snd (recv_w_ts 4 env_no_rx_ts 3 0 pkt_used))) = ts_rx \<and>
   list_ex is_syslog (snd (snd (recv_w_ts 4 env_no_rx_ts 3 0 pkt_used)))"
  using timestamp_failure_is_reported_not_marked
          [where cfg_ts = "CHR ''k''" and os = env_no_tx_ts and sock = 3 and n = 4
             and d = "[1, 2, 3, 4]" and a = peer and ?t0.0 = ts_rx and flags = 0
             and dg = dg_full and pkt = pkt_used]
        timestamp_failure_is_reported_not_marked
          [where cfg_ts = "CHR ''k''" and os = env_no_rx_ts and sock = 3 and n = 4
             and d = "[1, 2, 3, 4]" and a = peer and ?t0.0 = ts_rx and flags = MSG_ERRQUEUE
             and dg = dg_full and pkt = pkt_used]
        timestamp_failure_is_reported_not_marked
          [where cfg_ts = "CHR ''k''" and os = env_no_rx_ts and sock = 3 and n = 4
             and d = "[1, 2, 3, 4]" and a = peer and ?t0.0 = ts_rx and flags = 0
             and dg = dg_full and pkt = pkt_used]
  by (simp add: env_no_tx_ts_def env_no_rx_ts_def env_ok_def MSG_ERRQUEUE_def pkt_used_def)

text \<open>C3 as stated fails on the ordinary receive. With a fresh packet, a failed
  extraction leaves the all-zero timestamp in the packet and \<^verbatim>\<open>recv_w_ts\<close> returns 0, the
  value it returns for a valid timestamp. With a packet buffer used before, the failed
  extraction (\<open>env_short_no_rx_ts\<close>) and a successful one (\<open>env_recv_short\<close>) give the same
  return value and the same packet.\<close>

theorem recv_zero_or_stale_timestamp_with_success:
  "fst (os_tstamp_extract env_short_no_rx_ts
          (msghdr_after dg_short (received 4 dg_short pkt_fresh)) (ts pkt_fresh)) < 0 \<and>
   fst (recv_w_ts 4 env_short_no_rx_ts 3 0 pkt_fresh) = 0 \<and>
   ts (fst (snd (recv_w_ts 4 env_short_no_rx_ts 3 0 pkt_fresh))) = zero_ts \<and>
   fst (os_tstamp_extract env_short_no_rx_ts
          (msghdr_after dg_short (received 4 dg_short pkt_used)) (ts pkt_used)) < 0 \<and>
   0 \<le> fst (os_tstamp_extract env_recv_short
          (msghdr_after dg_short (received 4 dg_short pkt_used)) (ts pkt_used)) \<and>
   fst (recv_w_ts 4 env_short_no_rx_ts 3 0 pkt_used) = fst (recv_w_ts 4 env_recv_short 3 0 pkt_used) \<and>
   fst (snd (recv_w_ts 4 env_short_no_rx_ts 3 0 pkt_used)) =
     fst (snd (recv_w_ts 4 env_recv_short 3 0 pkt_used))"
  by (simp add: env_short_no_rx_ts_def env_no_rx_ts_def env_recv_short_def env_ok_def recv_w_ts_def received_def deliver_def msghdr_after_def kernel_fill_def memset_def sizeof_control_def MSG_ERRQUEUE_def Let_def dg_short_def pkt_fresh_def pkt_used_def)

text \<open>C8. \<^verbatim>\<open>recv_w_ts\<close> treats a failed timestamp extraction differently on its two
  receive paths. When \<^verbatim>\<open>recvmsg\<close> fails, it returns -1 without calling \<^verbatim>\<open>tstamp_extract\<close>,
  and logs the failure on an ordinary receive only. When \<^verbatim>\<open>recvmsg\<close> succeeds, it calls
  \<^verbatim>\<open>tstamp_extract\<close> on the received message and the packet's timestamp is what that
  call left. On an error-queue poll (\<^verbatim>\<open>MSG_ERRQUEUE\<close> set) the return value is -1 exactly
  when the extraction failed, the value a failed \<^verbatim>\<open>recvmsg\<close> gives as well, and nothing is
  logged in either case; a successful extraction gives 0. On an ordinary data receive the
  return value is 0 whether the extraction failed or not, and a failed one is logged.\<close>

theorem recv_extraction_failure_asymmetry:
  "(os_recvmsg os sock flags = None \<longrightarrow>
      recv_w_ts n os sock flags pkt =
        (- 1, pkt\<lparr>data := memset (data pkt) 0 n\<rparr>,
         Call_recvmsg sock flags #
           (if flags AND MSG_ERRQUEUE = 0 then [Syslog LOG_INFO ''recvmsg: %s''] else []))) \<and>
   (os_recvmsg os sock flags = Some dg \<longrightarrow>
      recv_w_ts n os sock flags pkt =
        (if flags AND MSG_ERRQUEUE \<noteq> 0 \<and>
            fst (os_tstamp_extract os (msghdr_after dg (received n dg pkt)) (ts pkt)) < 0
         then - 1 else 0,
         (received n dg pkt)
           \<lparr>ts := snd (os_tstamp_extract os (msghdr_after dg (received n dg pkt)) (ts pkt))\<rparr>,
         [Call_recvmsg sock flags, Call_tstamp_extract (msghdr_after dg (received n dg pkt))] @
           (if flags AND MSG_ERRQUEUE = 0 \<and>
               fst (os_tstamp_extract os (msghdr_after dg (received n dg pkt)) (ts pkt)) < 0
            then [Syslog LOG_ERR ''RX timestamp error''] else [])))"
proof (intro conjI impI)
  assume "os_recvmsg os sock flags = None"
  then show "recv_w_ts n os sock flags pkt =
        (- 1, pkt\<lparr>data := memset (data pkt) 0 n\<rparr>,
         Call_recvmsg sock flags #
           (if flags AND MSG_ERRQUEUE = 0 then [Syslog LOG_INFO ''recvmsg: %s''] else []))"
    by (rule recv_w_ts_fail)
next
  assume ok: "os_recvmsg os sock flags = Some dg"
  show "recv_w_ts n os sock flags pkt =
        (if flags AND MSG_ERRQUEUE \<noteq> 0 \<and>
            fst (os_tstamp_extract os (msghdr_after dg (received n dg pkt)) (ts pkt)) < 0
         then - 1 else 0,
         (received n dg pkt)
           \<lparr>ts := snd (os_tstamp_extract os (msghdr_after dg (received n dg pkt)) (ts pkt))\<rparr>,
         [Call_recvmsg sock flags, Call_tstamp_extract (msghdr_after dg (received n dg pkt))] @
           (if flags AND MSG_ERRQUEUE = 0 \<and>
               fst (os_tstamp_extract os (msghdr_after dg (received n dg pkt)) (ts pkt)) < 0
            then [Syslog LOG_ERR ''RX timestamp error''] else []))"
    by (rule recv_w_ts_ok [OF ok refl])
qed

text \<open>The theorem on the error queue at \<open>env_recv_fails\<close> (\<^verbatim>\<open>recvmsg\<close> fails),
  \<open>env_no_rx_ts\<close> (extraction fails) and \<open>env_ok\<close> (extraction succeeds), and on an
  ordinary receive at \<open>env_no_rx_ts\<close>.\<close>

theorem recv_extraction_failure_asymmetry_witness:
  "os_recvmsg env_recv_fails 3 MSG_ERRQUEUE = None \<and>
   recv_w_ts 4 env_recv_fails 3 MSG_ERRQUEUE pkt_fresh =
     (- 1, pkt_fresh, [Call_recvmsg 3 MSG_ERRQUEUE]) \<and>
   os_recvmsg env_no_rx_ts 3 MSG_ERRQUEUE = Some dg_full \<and>
   MSG_ERRQUEUE AND MSG_ERRQUEUE \<noteq> 0 \<and>
   fst (os_tstamp_extract env_no_rx_ts
          (msghdr_after dg_full (received 4 dg_full pkt_fresh)) (ts pkt_fresh)) < 0 \<and>
   recv_w_ts 4 env_no_rx_ts 3 MSG_ERRQUEUE pkt_fresh =
     (- 1, \<lparr>addr = peer, data = [1, 2, 3, 4], ts = zero_ts\<rparr>,
      [Call_recvmsg 3 MSG_ERRQUEUE,
       Call_tstamp_extract \<lparr>msg_name = peer, msg_iov = [1, 2, 3, 4], msg_control = [1]\<rparr>]) \<and>
   0 \<le> fst (os_tstamp_extract env_ok
          (msghdr_after dg_full (received 4 dg_full pkt_fresh)) (ts pkt_fresh)) \<and>
   recv_w_ts 4 env_ok 3 MSG_ERRQUEUE pkt_fresh =
     (0, \<lparr>addr = peer, data = [1, 2, 3, 4], ts = ts_rx\<rparr>,
      [Call_recvmsg 3 MSG_ERRQUEUE,
       Call_tstamp_extract \<lparr>msg_name = peer, msg_iov = [1, 2, 3, 4], msg_control = [1]\<rparr>]) \<and>
   (0::int) AND MSG_ERRQUEUE = 0 \<and>
   recv_w_ts 4 env_no_rx_ts 3 0 pkt_fresh =
     (0, \<lparr>addr = peer, data = [1, 2, 3, 4], ts = zero_ts\<rparr>,
      [Call_recvmsg 3 0,
       Call_tstamp_extract \<lparr>msg_name = peer, msg_iov = [1, 2, 3, 4], msg_control = [1]\<rparr>,
       Syslog LOG_ERR ''RX timestamp error''])"
  using recv_extraction_failure_asymmetry [where os = env_recv_fails and sock = 3 and flags = MSG_ERRQUEUE and n = 4
              and pkt = pkt_fresh and dg = dg_full]
        recv_extraction_failure_asymmetry [where os = env_no_rx_ts and sock = 3 and flags = MSG_ERRQUEUE and n = 4
              and pkt = pkt_fresh and dg = dg_full]
        recv_extraction_failure_asymmetry [where os = env_ok and sock = 3 and flags = MSG_ERRQUEUE and n = 4
              and pkt = pkt_fresh and dg = dg_full]
        recv_extraction_failure_asymmetry [where os = env_no_rx_ts and sock = 3 and flags = 0 and n = 4
              and pkt = pkt_fresh and dg = dg_full]
  by (simp add: env_recv_fails_def env_no_rx_ts_def env_ok_def MSG_ERRQUEUE_def dg_full_def
      pkt_fresh_def received_def deliver_def kernel_fill_def memset_def msghdr_after_def
      sizeof_control_def zero_ts_def eval_nat_numeral)

text \<open>C10. \<^verbatim>\<open>recv_w_ts\<close> zeroes the \<open>DATALEN\<close> bytes of the payload buffer before the
  receive: the kernel fills the zeroed buffer. So after a successful \<^verbatim>\<open>recvmsg\<close> of a
  datagram shorter than \<open>DATALEN\<close> the packet holds the datagram's bytes and every byte
  after them, up to \<open>DATALEN\<close>, is zero.\<close>

theorem recv_short_datagram_zero_tail:
  assumes "os_recvmsg os sock flags = Some dg"
    and "length (dg_payload dg) < n"
  shows "data (fst (snd (recv_w_ts n os sock flags pkt))) =
           kernel_fill (dg_payload dg) n (memset (data pkt) 0 n) \<and>
         take (length (dg_payload dg)) (data (fst (snd (recv_w_ts n os sock flags pkt)))) =
           dg_payload dg \<and>
         (\<forall>i. length (dg_payload dg) \<le> i \<and> i < n \<longrightarrow>
            data (fst (snd (recv_w_ts n os sock flags pkt))) ! i = 0)"
proof -
  have d: "data (fst (snd (recv_w_ts n os sock flags pkt))) =
           kernel_fill (dg_payload dg) n (memset (data pkt) 0 n)"
    by (simp add: recv_w_ts_ok [OF assms(1) refl] received_simps)
  have h: "take (length (dg_payload dg)) (kernel_fill (dg_payload dg) n (memset (data pkt) 0 n)) =
           dg_payload dg"
    using assms(2) kernel_fill_memset_head [of n "dg_payload dg" "data pkt" 0]
    by (simp add: min_def)
  show ?thesis
    using d h by (simp add: kernel_fill_memset_tail)
qed

text \<open>The theorem at \<open>env_recv_short\<close>: two bytes arrive in a buffer that held four
  nines.\<close>

theorem recv_short_datagram_zero_tail_witness:
  "os_recvmsg env_recv_short 3 0 = Some dg_short \<and> length (dg_payload dg_short) < 4 \<and>
   data (fst (snd (recv_w_ts 4 env_recv_short 3 0 pkt_used))) = [1, 2, 0, 0]"
  using recv_short_datagram_zero_tail [of env_recv_short 3 0 dg_short 4 pkt_used]
  by (simp add: env_recv_short_def env_ok_def dg_short_def pkt_used_def kernel_fill_def memset_def eval_nat_numeral)

subsection \<open>send_w_ts and recv_w_ts together\<close>

text \<open>C6. A payload buffer of exactly \<open>DATALEN\<close> bytes is sent with \<^verbatim>\<open>send_w_ts\<close>, and
  the datagram handed to \<^verbatim>\<open>sendto\<close> is the one a successful ordinary \<^verbatim>\<open>recvmsg\<close> of the
  peer delivers. Then \<^verbatim>\<open>recv_w_ts\<close> returns 0 and the first \<open>DATALEN\<close> bytes of the
  packet's payload are the bytes sent; they are the whole payload when the packet's buffer
  has \<open>DATALEN\<close> bytes.\<close>

theorem payload_round_trip:
  assumes "length d = n"
    and "Call_sendto s bytes a' \<in> set (snd (snd (send_w_ts n cfg_ts os1 sock1 a d t0)))"
    and "os_recvmsg os2 sock2 flags = Some dg"
    and "dg_payload dg = bytes"
    and "flags AND MSG_ERRQUEUE = 0"
  shows "fst (recv_w_ts n os2 sock2 flags pkt) = 0 \<and>
         take n (data (fst (snd (recv_w_ts n os2 sock2 flags pkt)))) = d \<and>
         (length (data pkt) = n \<longrightarrow> data (fst (snd (recv_w_ts n os2 sock2 flags pkt))) = d)"
proof -
  from assms(2) have "bytes = take n d"
    by (auto simp: send_w_ts_eq Let_def split: if_splits)
  with assms(1) have b: "dg_payload dg = d" "length (dg_payload dg) = n"
    using assms(4) by simp_all
  have r: "fst (recv_w_ts n os2 sock2 flags pkt) = 0"
    using assms(5) by (simp add: recv_w_ts_ok [OF assms(3) refl])
  have dd: "data (fst (snd (recv_w_ts n os2 sock2 flags pkt))) =
           kernel_fill d n (memset (data pkt) 0 n)"
    by (simp add: recv_w_ts_ok [OF assms(3) refl] received_simps b)
  have t: "take n (kernel_fill d n (memset (data pkt) 0 n)) = d"
    using kernel_fill_memset_head [of n d "data pkt" 0] b by simp
  show ?thesis
    using r dd t assms(1) by (simp add: kernel_fill_exact)
qed

text \<open>The theorem at \<open>env_ok\<close>, sender and receiver.\<close>

theorem payload_round_trip_witness:
  "length [1, 2, 3, 4 :: byte] = 4 \<and>
   Call_sendto 3 [1, 2, 3, 4] peer
     \<in> set (snd (snd (send_w_ts 4 (CHR ''u'') env_ok 3 peer [1, 2, 3, 4] zero_ts))) \<and>
   os_recvmsg env_ok 5 0 = Some dg_full \<and> dg_payload dg_full = [1, 2, 3, 4] \<and>
   (0::int) AND MSG_ERRQUEUE = 0 \<and>
   fst (recv_w_ts 4 env_ok 5 0 pkt_used) = 0 \<and>
   data (fst (snd (recv_w_ts 4 env_ok 5 0 pkt_used))) = [1, 2, 3, 4]"
  using payload_round_trip [of "[1, 2, 3, 4]" 4 3 "[1, 2, 3, 4]" peer "CHR ''u''" env_ok 3 peer
          zero_ts env_ok 5 0 dg_full pkt_used]
  by (simp add: env_ok_def dg_full_def pkt_used_def send_w_ts_eq MSG_ERRQUEUE_def)

subsection \<open>bind_or_die, and who may leave the process\<close>

text \<open>C4. \<^verbatim>\<open>bind_or_die\<close> leaves the process exactly when the creation of one of the two
  sockets, one of the two \<^verbatim>\<open>bind\<close> calls or \<^verbatim>\<open>listen\<close> fails, and then with
  \<^verbatim>\<open>EXIT_FAILURE\<close>. \<^verbatim>\<open>send_w_ts\<close> and \<^verbatim>\<open>recv_w_ts\<close> never call \<^verbatim>\<open>exit\<close>: when \<^verbatim>\<open>sendto\<close> or
  \<^verbatim>\<open>recvmsg\<close> fails they return -1 to the caller.\<close>

theorem only_startup_failures_exit:
  "(fst (bind_or_die os port) = None) =
     (os_socket os PF_INET6 SOCK_DGRAM IPPROTO_UDP < 0 \<or>
      os_bind os (os_socket os PF_INET6 SOCK_DGRAM IPPROTO_UDP) (my_sockaddr port) < 0 \<or>
      os_socket os PF_INET6 SOCK_STREAM IPPROTO_TCP < 0 \<or>
      os_bind os (os_socket os PF_INET6 SOCK_STREAM IPPROTO_TCP) (my_sockaddr port) < 0 \<or>
      os_listen os (os_socket os PF_INET6 SOCK_STREAM IPPROTO_TCP) 10 = - 1) \<and>
   list_ex is_exit (snd (bind_or_die os port)) = (fst (bind_or_die os port) = None) \<and>
   (fst (bind_or_die os port) = None \<longrightarrow>
      last (snd (bind_or_die os port)) = Exit EXIT_FAILURE) \<and>
   \<not> list_ex is_exit (snd (snd (send_w_ts n cfg_ts os sock a d t0))) \<and>
   \<not> list_ex is_exit (snd (snd (recv_w_ts n os sock flags pkt))) \<and>
   (os_sendto os sock (take n d) a < 0 \<longrightarrow> fst (send_w_ts n cfg_ts os sock a d t0) = - 1) \<and>
   (os_recvmsg os sock flags = None \<longrightarrow> fst (recv_w_ts n os sock flags pkt) = - 1)"
proof (intro conjI impI)
  show "(fst (bind_or_die os port) = None) =
     (os_socket os PF_INET6 SOCK_DGRAM IPPROTO_UDP < 0 \<or>
      os_bind os (os_socket os PF_INET6 SOCK_DGRAM IPPROTO_UDP) (my_sockaddr port) < 0 \<or>
      os_socket os PF_INET6 SOCK_STREAM IPPROTO_TCP < 0 \<or>
      os_bind os (os_socket os PF_INET6 SOCK_STREAM IPPROTO_TCP) (my_sockaddr port) < 0 \<or>
      os_listen os (os_socket os PF_INET6 SOCK_STREAM IPPROTO_TCP) 10 = - 1)"
    by (simp add: bind_or_die_result Let_def)
  show "list_ex is_exit (snd (bind_or_die os port)) = (fst (bind_or_die os port) = None)"
    by (rule bind_or_die_exit)
  show "\<not> list_ex is_exit (snd (snd (send_w_ts n cfg_ts os sock a d t0)))"
    by (rule send_w_ts_no_exit)
  show "\<not> list_ex is_exit (snd (snd (recv_w_ts n os sock flags pkt)))"
    by (rule recv_w_ts_no_exit)
next
  assume "fst (bind_or_die os port) = None"
  then show "last (snd (bind_or_die os port)) = Exit EXIT_FAILURE"
    by (rule bind_or_die_last)
next
  assume "os_sendto os sock (take n d) a < 0"
  then show "fst (send_w_ts n cfg_ts os sock a d t0) = - 1"
    by (simp add: send_w_ts_eq Let_def)
next
  assume "os_recvmsg os sock flags = None"
  then show "fst (recv_w_ts n os sock flags pkt) = - 1"
    by (simp add: recv_w_ts_fail)
qed

text \<open>The theorem at \<open>env_listen_fails\<close>, \<open>env_ok\<close>, \<open>env_send_fails\<close> and
  \<open>env_recv_fails\<close>.\<close>

theorem only_startup_failures_exit_witness:
  "fst (bind_or_die env_listen_fails 5000) = None \<and>
   last (snd (bind_or_die env_listen_fails 5000)) = Exit EXIT_FAILURE \<and>
   fst (bind_or_die env_ok 5000) = Some (3, 4) \<and>
   \<not> list_ex is_exit (snd (bind_or_die env_ok 5000)) \<and>
   os_sendto env_send_fails 3 (take 4 [1, 2, 3, 4]) peer < 0 \<and>
   fst (send_w_ts 4 (CHR ''k'') env_send_fails 3 peer [1, 2, 3, 4] zero_ts) = - 1 \<and>
   \<not> list_ex is_exit (snd (snd (send_w_ts 4 (CHR ''k'') env_send_fails 3 peer [1, 2, 3, 4] zero_ts))) \<and>
   os_recvmsg env_recv_fails 3 0 = None \<and>
   fst (recv_w_ts 4 env_recv_fails 3 0 pkt_fresh) = - 1 \<and>
   \<not> list_ex is_exit (snd (snd (recv_w_ts 4 env_recv_fails 3 0 pkt_fresh)))"
  using only_startup_failures_exit
          [where os = env_listen_fails and port = 5000 and n = 4 and cfg_ts = "CHR ''k''"
             and sock = 3 and a = peer and d = "[1, 2, 3, 4]" and ?t0.0 = zero_ts
             and flags = 0 and pkt = pkt_fresh]
        only_startup_failures_exit
          [where os = env_ok and port = 5000 and n = 4 and cfg_ts = "CHR ''k''"
             and sock = 3 and a = peer and d = "[1, 2, 3, 4]" and ?t0.0 = zero_ts
             and flags = 0 and pkt = pkt_fresh]
        only_startup_failures_exit
          [where os = env_send_fails and port = 5000 and n = 4 and cfg_ts = "CHR ''k''"
             and sock = 3 and a = peer and d = "[1, 2, 3, 4]" and ?t0.0 = zero_ts
             and flags = 0 and pkt = pkt_fresh]
        only_startup_failures_exit
          [where os = env_recv_fails and port = 5000 and n = 4 and cfg_ts = "CHR ''k''"
             and sock = 3 and a = peer and d = "[1, 2, 3, 4]" and ?t0.0 = zero_ts
             and flags = 0 and pkt = pkt_fresh]
  by (simp add: env_listen_fails_def env_send_fails_def env_recv_fails_def env_ok_def bind_or_die_def send_w_ts_eq recv_w_ts_def Let_def)

text \<open>C7. A failure of \<^verbatim>\<open>setsockopt(IPV6_V6ONLY)\<close> is best effort on both sockets.
  Whether \<^verbatim>\<open>bind_or_die\<close> returns or exits does not depend on what \<^verbatim>\<open>setsockopt\<close> returns.
  When the call fails on the UDP socket, the line "setsockopt: IPV6_V6ONLY: %s" is
  logged (priority \<^verbatim>\<open>LOG_ERR\<close>) and the next call is the \<^verbatim>\<open>bind\<close> of that socket; when it
  fails on the TCP socket, the line is logged, the next call sets \<^verbatim>\<open>SO_REUSEADDR\<close>, and
  the \<^verbatim>\<open>bind\<close> of the TCP socket follows.\<close>

theorem v6only_failure_is_not_fatal:
  "fst (bind_or_die (os\<lparr>os_setsockopt := f\<rparr>) port) = fst (bind_or_die os port) \<and>
   (0 \<le> os_socket os PF_INET6 SOCK_DGRAM IPPROTO_UDP \<and>
    os_setsockopt os (os_socket os PF_INET6 SOCK_DGRAM IPPROTO_UDP) IPPROTO_IPV6 IPV6_V6ONLY 0 < 0 \<longrightarrow>
      take 3 (after_event (Call_socket PF_INET6 SOCK_DGRAM IPPROTO_UDP) (snd (bind_or_die os port))) =
        [Call_setsockopt (os_socket os PF_INET6 SOCK_DGRAM IPPROTO_UDP) IPPROTO_IPV6 IPV6_V6ONLY 0,
         Syslog LOG_ERR ''setsockopt: IPV6_V6ONLY: %s'',
         Call_bind (os_socket os PF_INET6 SOCK_DGRAM IPPROTO_UDP) (my_sockaddr port)]) \<and>
   (0 \<le> os_socket os PF_INET6 SOCK_DGRAM IPPROTO_UDP \<and>
    0 \<le> os_bind os (os_socket os PF_INET6 SOCK_DGRAM IPPROTO_UDP) (my_sockaddr port) \<and>
    0 \<le> os_socket os PF_INET6 SOCK_STREAM IPPROTO_TCP \<and>
    os_setsockopt os (os_socket os PF_INET6 SOCK_STREAM IPPROTO_TCP) IPPROTO_IPV6 IPV6_V6ONLY 0 < 0 \<longrightarrow>
      take 3 (after_event (Call_socket PF_INET6 SOCK_STREAM IPPROTO_TCP) (snd (bind_or_die os port))) =
        [Call_setsockopt (os_socket os PF_INET6 SOCK_STREAM IPPROTO_TCP) IPPROTO_IPV6 IPV6_V6ONLY 0,
         Syslog LOG_ERR ''setsockopt: IPV6_V6ONLY: %s'',
         Call_setsockopt (os_socket os PF_INET6 SOCK_STREAM IPPROTO_TCP) SOL_SOCKET SO_REUSEADDR 1] \<and>
      Call_bind (os_socket os PF_INET6 SOCK_STREAM IPPROTO_TCP) (my_sockaddr port)
        \<in> set (after_event (Call_socket PF_INET6 SOCK_STREAM IPPROTO_TCP) (snd (bind_or_die os port))))"
proof (intro conjI impI)
  show "fst (bind_or_die (os\<lparr>os_setsockopt := f\<rparr>) port) = fst (bind_or_die os port)"
    by (simp add: bind_or_die_result)
next
  assume "0 \<le> os_socket os PF_INET6 SOCK_DGRAM IPPROTO_UDP \<and>
    os_setsockopt os (os_socket os PF_INET6 SOCK_DGRAM IPPROTO_UDP) IPPROTO_IPV6 IPV6_V6ONLY 0 < 0"
  then show "take 3 (after_event (Call_socket PF_INET6 SOCK_DGRAM IPPROTO_UDP) (snd (bind_or_die os port))) =
        [Call_setsockopt (os_socket os PF_INET6 SOCK_DGRAM IPPROTO_UDP) IPPROTO_IPV6 IPV6_V6ONLY 0,
         Syslog LOG_ERR ''setsockopt: IPV6_V6ONLY: %s'',
         Call_bind (os_socket os PF_INET6 SOCK_DGRAM IPPROTO_UDP) (my_sockaddr port)]"
    by (simp add: bind_or_die_def Let_def)
next
  assume a: "0 \<le> os_socket os PF_INET6 SOCK_DGRAM IPPROTO_UDP \<and>
    0 \<le> os_bind os (os_socket os PF_INET6 SOCK_DGRAM IPPROTO_UDP) (my_sockaddr port) \<and>
    0 \<le> os_socket os PF_INET6 SOCK_STREAM IPPROTO_TCP \<and>
    os_setsockopt os (os_socket os PF_INET6 SOCK_STREAM IPPROTO_TCP) IPPROTO_IPV6 IPV6_V6ONLY 0 < 0"
  then show "take 3 (after_event (Call_socket PF_INET6 SOCK_STREAM IPPROTO_TCP) (snd (bind_or_die os port))) =
        [Call_setsockopt (os_socket os PF_INET6 SOCK_STREAM IPPROTO_TCP) IPPROTO_IPV6 IPV6_V6ONLY 0,
         Syslog LOG_ERR ''setsockopt: IPV6_V6ONLY: %s'',
         Call_setsockopt (os_socket os PF_INET6 SOCK_STREAM IPPROTO_TCP) SOL_SOCKET SO_REUSEADDR 1]"
    by (simp add: bind_or_die_def Let_def)
  from a show "Call_bind (os_socket os PF_INET6 SOCK_STREAM IPPROTO_TCP) (my_sockaddr port)
        \<in> set (after_event (Call_socket PF_INET6 SOCK_STREAM IPPROTO_TCP) (snd (bind_or_die os port)))"
    by (simp add: bind_or_die_def Let_def)
qed

text \<open>The theorem at \<open>env_v6only_fails\<close>: both sockets are refused the option, and
  \<^verbatim>\<open>bind_or_die\<close> returns the two descriptors.\<close>

theorem v6only_failure_is_not_fatal_witness:
  "fst (bind_or_die env_v6only_fails 5000) = Some (3, 4) \<and>
   snd (bind_or_die env_v6only_fails 5000) =
     [Syslog LOG_INFO ''Binding port %d\<newline>'',
      Call_socket PF_INET6 SOCK_DGRAM IPPROTO_UDP,
      Call_setsockopt 3 IPPROTO_IPV6 IPV6_V6ONLY 0,
      Syslog LOG_ERR ''setsockopt: IPV6_V6ONLY: %s'',
      Call_bind 3 (my_sockaddr 5000),
      Call_socket PF_INET6 SOCK_STREAM IPPROTO_TCP,
      Call_setsockopt 4 IPPROTO_IPV6 IPV6_V6ONLY 0,
      Syslog LOG_ERR ''setsockopt: IPV6_V6ONLY: %s'',
      Call_setsockopt 4 SOL_SOCKET SO_REUSEADDR 1,
      Call_bind 4 (my_sockaddr 5000),
      Call_listen 4 10] \<and>
   take 3 (after_event (Call_socket PF_INET6 SOCK_DGRAM IPPROTO_UDP)
             (snd (bind_or_die env_v6only_fails 5000))) =
     [Call_setsockopt 3 IPPROTO_IPV6 IPV6_V6ONLY 0,
      Syslog LOG_ERR ''setsockopt: IPV6_V6ONLY: %s'',
      Call_bind 3 (my_sockaddr 5000)] \<and>
   take 3 (after_event (Call_socket PF_INET6 SOCK_STREAM IPPROTO_TCP)
             (snd (bind_or_die env_v6only_fails 5000))) =
     [Call_setsockopt 4 IPPROTO_IPV6 IPV6_V6ONLY 0,
      Syslog LOG_ERR ''setsockopt: IPV6_V6ONLY: %s'',
      Call_setsockopt 4 SOL_SOCKET SO_REUSEADDR 1]"
  using v6only_failure_is_not_fatal
          [where os = env_v6only_fails and f = "os_setsockopt env_ok" and port = 5000]
  by (simp add: env_v6only_fails_def env_ok_def bind_or_die_def Let_def)

end
